theory Spec2Isabelle
  imports Complex_Main
begin

section \<open>Exceptions\<close>

text \<open>
  The exceptions that \<^verbatim>\<open>piperelay.py\<close> raises or lets through, as values. A constructor
  carries the message where the source builds one. \<open>OperationalError\<close> is written as the
  source writes it (\<^verbatim>\<open>raise OperationalError("...")\<close>); the module never binds that name, so
  at run time the statement surfaces as a \<open>NameError\<close> raised at the same place. Either way
  an exception leaves the call there, which is all the development uses.
  \<open>PipeError\<close> stands for any exception of the pipe library.
\<close>

datatype py_error =
    JSONDecodeError
  | KeyError string
  | TypeError
  | AttributeError
  | UnboundLocalError string
  | OperationalError string
  | OSError string
  | HTTPError nat
  | PipeError string

section \<open>The json module\<close>

text \<open>
  \<^verbatim>\<open>json.dumps\<close> and \<^verbatim>\<open>json.loads\<close> belong to the standard library. They are modelled with
  their default arguments. A Python string is a \<open>string\<close> whose characters are the code
  points 0 to 255. Two corners of the library lie outside this alphabet and outside integer
  arithmetic and are kept apart: a number with a fraction or an exponent (and \<open>NaN\<close>,
  \<open>Infinity\<close>, \<open>-Infinity\<close>) is a \<open>JFloat\<close> holding its lexeme, which \<open>json_dumps\<close>
  prints back as it stands; an escape \<^verbatim>\<open>\uXXXX\<close> above \<open>00ff\<close> has no character and is
  refused. A dict is an association list in insertion order with one entry per key.
\<close>

datatype json =
    JNull
  | JBool bool
  | JInt int
  | JFloat string
  | JString string
  | JArray "json list"
  | JObject "(string \<times> json) list"

subsection \<open>Serialisation\<close>

definition hexdigit :: "nat \<Rightarrow> char" where
  "hexdigit d = ''0123456789abcdef'' ! d"

text \<open>\<^verbatim>\<open>'{0:04x}'.format(n)\<close> for \<open>n\<close> below \<open>0x10000\<close>.\<close>

definition hex4 :: "nat \<Rightarrow> string" where
  "hex4 n =
    [hexdigit (n div 4096 mod 16), hexdigit (n div 256 mod 16),
     hexdigit (n div 16 mod 16), hexdigit (n mod 16)]"

text \<open>The table of \<^verbatim>\<open>py_encode_basestring_ascii\<close>: everything outside space to tilde is escaped.\<close>

definition escape_char :: "char \<Rightarrow> string" where
  "escape_char c =
    (if c = CHR 0x22 then [CHR 0x5C, CHR 0x22]
     else if c = CHR 0x5C then [CHR 0x5C, CHR 0x5C]
     else if c = CHR 0x0A then [CHR 0x5C, CHR ''n'']
     else if c = CHR 0x0D then [CHR 0x5C, CHR ''r'']
     else if c = CHR 0x09 then [CHR 0x5C, CHR ''t'']
     else if c = CHR 0x0C then [CHR 0x5C, CHR ''f'']
     else if c = CHR 0x08 then [CHR 0x5C, CHR ''b'']
     else if (of_char c :: nat) < 32 \<or> 126 < (of_char c :: nat) then
       CHR 0x5C # CHR ''u'' # hex4 (of_char c)
     else [c])"

definition encode_string :: "string \<Rightarrow> string" where
  "encode_string s = CHR 0x22 # concat (map escape_char s) @ [CHR 0x22]"

definition digit_char :: "nat \<Rightarrow> char" where
  "digit_char d = ''0123456789'' ! d"

function show_nat :: "nat \<Rightarrow> string" where
  "show_nat n =
    (if n < 10 then [digit_char n] else show_nat (n div 10) @ [digit_char (n mod 10)])"
  by pat_completeness auto
termination
  by (relation "measure (\<lambda>n. n)") auto

definition show_int :: "int \<Rightarrow> string" where
  "show_int i = (if i < 0 then CHR ''-'' # show_nat (nat (- i)) else show_nat (nat i))"

text \<open>The default separators are \<^verbatim>\<open>", "\<close> and \<^verbatim>\<open>": "\<close>.\<close>

fun json_dumps :: "json \<Rightarrow> string"
  and dumps_items :: "json list \<Rightarrow> string"
  and dumps_members :: "(string \<times> json) list \<Rightarrow> string" where
  "json_dumps JNull = ''null''"
| "json_dumps (JBool b) = (if b then ''true'' else ''false'')"
| "json_dumps (JInt i) = show_int i"
| "json_dumps (JFloat lexeme) = lexeme"
| "json_dumps (JString s) = encode_string s"
| "json_dumps (JArray xs) = ''['' @ dumps_items xs @ '']''"
| "json_dumps (JObject ms) = ''{'' @ dumps_members ms @ ''}''"
| "dumps_items [] = []"
| "dumps_items [x] = json_dumps x"
| "dumps_items (x # y # ys) = json_dumps x @ '', '' @ dumps_items (y # ys)"
| "dumps_members [] = []"
| "dumps_members [(k, v)] = encode_string k @ '': '' @ json_dumps v"
| "dumps_members ((k, v) # m # ms) =
     encode_string k @ '': '' @ json_dumps v @ '', '' @ dumps_members (m # ms)"

subsection \<open>Scanning strings and numbers\<close>

definition hexval :: "char \<Rightarrow> nat option" where
  "hexval c =
    (let n = (of_char c :: nat) in
     if 48 \<le> n \<and> n \<le> 57 then Some (n - 48)
     else if 97 \<le> n \<and> n \<le> 102 then Some (n - 87)
     else if 65 \<le> n \<and> n \<le> 70 then Some (n - 55)
     else None)"

definition decode_hex4 :: "char \<Rightarrow> char \<Rightarrow> char \<Rightarrow> char \<Rightarrow> nat option" where
  "decode_hex4 a b c d =
    (case (hexval a, hexval b, hexval c, hexval d) of
       (Some h3, Some h2, Some h1, Some h0) \<Rightarrow> Some (((h3 * 16 + h2) * 16 + h1) * 16 + h0)
     | _ \<Rightarrow> None)"

definition unescape :: "char \<Rightarrow> char option" where
  "unescape e =
    (if e = CHR 0x22 then Some (CHR 0x22)
     else if e = CHR 0x5C then Some (CHR 0x5C)
     else if e = CHR ''/'' then Some (CHR ''/'')
     else if e = CHR ''b'' then Some (CHR 0x08)
     else if e = CHR ''f'' then Some (CHR 0x0C)
     else if e = CHR ''n'' then Some (CHR 0x0A)
     else if e = CHR ''r'' then Some (CHR 0x0D)
     else if e = CHR ''t'' then Some (CHR 0x09)
     else None)"

definition cons_char :: "char \<Rightarrow> (string \<times> string) option \<Rightarrow> (string \<times> string) option" where
  "cons_char c r = (case r of None \<Rightarrow> None | Some (s, rest) \<Rightarrow> Some (c # s, rest))"

text \<open>
  \<^verbatim>\<open>scanstring\<close> in strict mode, started after the opening quote: the decoded string and the
  text after the closing quote, or \<open>None\<close> where the library raises \<open>JSONDecodeError\<close>.
\<close>

fun scanstring :: "string \<Rightarrow> (string \<times> string) option" where
  "scanstring [] = None"
| "scanstring (c # cs) =
    (if c = CHR 0x22 then Some ([], cs)
     else if c = CHR 0x5C then
       (case cs of
          [] \<Rightarrow> None
        | e # r \<Rightarrow>
            if e = CHR ''u'' then
              (case r of
                 h3 # h2 # h1 # h0 # r' \<Rightarrow>
                   (case decode_hex4 h3 h2 h1 h0 of
                      None \<Rightarrow> None
                    | Some n \<Rightarrow> if n < 256 then cons_char (char_of n) (scanstring r') else None)
               | _ \<Rightarrow> None)
            else
              (case unescape e of
                 None \<Rightarrow> None
               | Some ch \<Rightarrow> cons_char ch (scanstring r)))
     else if (of_char c :: nat) < 32 then None
     else cons_char c (scanstring cs))"

definition is_digit :: "char \<Rightarrow> bool" where
  "is_digit c = (c \<in> set ''0123456789'')"

definition digits_value :: "string \<Rightarrow> int" where
  "digits_value ds = foldl (\<lambda>acc d. acc * 10 + (int (of_char d) - 48)) 0 ds"

text \<open>The exponent of \<^verbatim>\<open>NUMBER_RE\<close>: \<^verbatim>\<open>[eE][-+]?[0-9]+\<close>, or nothing.\<close>

definition scan_exponent :: "string \<Rightarrow> string \<times> string" where
  "scan_exponent cs =
    (case cs of
       [] \<Rightarrow> ([], cs)
     | e # r \<Rightarrow>
         if e = CHR ''e'' \<or> e = CHR ''E'' then
           (let sg = (case r of [] \<Rightarrow> [] | s # _ \<Rightarrow> if s = CHR ''+'' \<or> s = CHR ''-'' then [s] else []);
                r' = drop (length sg) r;
                ds = takeWhile is_digit r'
            in if ds = [] then ([], cs) else (e # sg @ ds, dropWhile is_digit r'))
         else ([], cs))"

definition scan_fraction :: "string \<Rightarrow> string \<times> string" where
  "scan_fraction cs =
    (case cs of
       p # f # r \<Rightarrow>
         if p = CHR ''.'' \<and> is_digit f then (p # f # takeWhile is_digit r, dropWhile is_digit r)
         else ([], cs)
     | _ \<Rightarrow> ([], cs))"

text \<open>\<^verbatim>\<open>NUMBER_RE = (-?(?:0|[1-9][0-9]*))(\.[0-9]+)?([eE][-+]?[0-9]+)?\<close>\<close>

definition scan_number :: "string \<Rightarrow> (json \<times> string) option" where
  "scan_number cs =
    (let neg = (cs \<noteq> [] \<and> hd cs = CHR ''-'');
         r0 = (if neg then tl cs else cs)
     in case r0 of
          [] \<Rightarrow> None
        | d # r1 \<Rightarrow>
            if \<not> is_digit d then None
            else
              (let ipart = (if d = CHR ''0'' then [d] else d # takeWhile is_digit r1);
                   r2 = (if d = CHR ''0'' then r1 else dropWhile is_digit r1);
                   (frac, r3) = scan_fraction r2;
                   (expo, r4) = scan_exponent r3
               in if frac = [] \<and> expo = []
                  then Some (JInt (if neg then - digits_value ipart else digits_value ipart), r4)
                  else Some (JFloat ((if neg then ''-'' else []) @ ipart @ frac @ expo), r4)))"

definition starts_with :: "string \<Rightarrow> string \<Rightarrow> bool" where
  "starts_with p cs = (take (length p) cs = p)"

text \<open>The scalar cases of \<^verbatim>\<open>scan_once\<close>, in its order.\<close>

definition scan_atom :: "string \<Rightarrow> (json \<times> string) option" where
  "scan_atom cs =
    (if starts_with ''null'' cs then Some (JNull, drop 4 cs)
     else if starts_with ''true'' cs then Some (JBool True, drop 4 cs)
     else if starts_with ''false'' cs then Some (JBool False, drop 5 cs)
     else
       (case scan_number cs of
          Some r \<Rightarrow> Some r
        | None \<Rightarrow>
            if starts_with ''NaN'' cs then Some (JFloat ''NaN'', drop 3 cs)
            else if starts_with ''Infinity'' cs then Some (JFloat ''Infinity'', drop 8 cs)
            else if starts_with ''-Infinity'' cs then Some (JFloat ''-Infinity'', drop 9 cs)
            else None))"

subsection \<open>Tokens\<close>

definition is_ws :: "char \<Rightarrow> bool" where
  "is_ws c = (c = CHR '' '' \<or> c = CHR 0x09 \<or> c = CHR 0x0A \<or> c = CHR 0x0D)"

datatype token = LBrace | RBrace | LBracket | RBracket | Colon | Comma | Atom json

definition cons_token :: "token \<Rightarrow> token list option \<Rightarrow> token list option" where
  "cons_token t r = (case r of None \<Rightarrow> None | Some ts \<Rightarrow> Some (t # ts))"

text \<open>
  The decoder skips white space wherever a token may start, so its grammar is one over
  tokens: the text is cut into tokens first, \<open>None\<close> where no token starts.
\<close>

function tokenize :: "string \<Rightarrow> token list option" where
  "tokenize [] = Some []"
| "tokenize (c # cs) =
    (if is_ws c then tokenize cs
     else if c = CHR ''{'' then cons_token LBrace (tokenize cs)
     else if c = CHR ''}'' then cons_token RBrace (tokenize cs)
     else if c = CHR ''['' then cons_token LBracket (tokenize cs)
     else if c = CHR '']'' then cons_token RBracket (tokenize cs)
     else if c = CHR '':'' then cons_token Colon (tokenize cs)
     else if c = CHR '','' then cons_token Comma (tokenize cs)
     else if c = CHR 0x22 then
       (case scanstring cs of
          None \<Rightarrow> None
        | Some (s, rest) \<Rightarrow> cons_token (Atom (JString s)) (tokenize rest))
     else
       (case scan_atom (c # cs) of
          None \<Rightarrow> None
        | Some (v, rest) \<Rightarrow> cons_token (Atom v) (tokenize rest)))"
  by pat_completeness auto
termination
proof -
  have str: "length rest < length cs" if "scanstring cs = Some (s, rest)" for cs s rest
    using that
  proof (induction cs arbitrary: s rest rule: scanstring.induct)
    case 1
    then show ?case by simp
  next
    case (2 c cs)
    then show ?case
      by (fastforce simp: cons_char_def split: if_splits list.splits option.splits)
  qed
  have expo: "length rest \<le> length cs" if "scan_exponent cs = (e, rest)" for cs e rest
    using that
    by (auto simp: scan_exponent_def Let_def split: list.splits if_splits
        intro: le_trans [OF length_dropWhile_le])
  have frac: "length rest \<le> length cs" if "scan_fraction cs = (e, rest)" for cs e rest
    using that
    by (auto simp: scan_fraction_def split: list.splits if_splits
        intro: le_trans [OF length_dropWhile_le])
  have num: "length rest < length cs" if a: "scan_number cs = Some (v, rest)" for cs v rest
  proof -
    define r0 where "r0 = (if cs \<noteq> [] \<and> hd cs = CHR ''-'' then tl cs else cs)"
    have r0: "length r0 \<le> length cs"
      by (simp add: r0_def)
    from a obtain d r1 where d: "r0 = d # r1"
      by (cases r0) (auto simp: scan_number_def Let_def r0_def split: if_splits)
    define r2 where "r2 = (if d = CHR ''0'' then r1 else dropWhile is_digit r1)"
    have r2: "length r2 \<le> length r1"
      by (simp add: r2_def length_dropWhile_le)
    obtain fr r3 where f: "scan_fraction r2 = (fr, r3)"
      by (cases "scan_fraction r2")
    obtain ex r4 where e: "scan_exponent r3 = (ex, r4)"
      by (cases "scan_exponent r3")
    from a d f e have "rest = r4"
      by (auto simp: scan_number_def Let_def r0_def r2_def split: if_splits)
    moreover have "length r4 \<le> length r3" "length r3 \<le> length r2"
      using expo [OF e] frac [OF f] by simp_all
    ultimately show ?thesis
      using r0 r2 d by simp
  qed
  have pre: "length p \<le> length cs" if "starts_with p cs" for p cs
    using that by (metis starts_with_def length_take min.cobounded1)
  have atom: "length rest < length cs" if "scan_atom cs = Some (v, rest)" for cs v rest
    using that
    by (auto simp: scan_atom_def dest: num pre split: if_splits option.splits)
  show ?thesis
    by (relation "measure length") (auto dest: str atom)
qed

subsection \<open>Deserialisation\<close>

text \<open>\<^verbatim>\<open>dict(pairs)\<close>: a repeated key keeps its first place and takes the last value.\<close>

fun dict_set :: "(string \<times> json) list \<Rightarrow> string \<Rightarrow> json \<Rightarrow> (string \<times> json) list" where
  "dict_set [] k v = [(k, v)]"
| "dict_set ((k', v') # ms) k v = (if k' = k then (k', v) # ms else (k', v') # dict_set ms k v)"

text \<open>
  The containers that are open, innermost first, each with what it holds so far and what
  may come next: after \<open>[\<close>, after an item, after a comma; after \<open>{\<close>, after a key,
  after its colon, after a member, after a comma.
\<close>

datatype frame =
    ArrOpen
  | ArrItem "json list"
  | ArrSep "json list"
  | ObjOpen
  | ObjKey "(string \<times> json) list" string
  | ObjColon "(string \<times> json) list" string
  | ObjItem "(string \<times> json) list"
  | ObjSep "(string \<times> json) list"

datatype pstate = Running "frame list" | Done json

fun put_value :: "json \<Rightarrow> frame list \<Rightarrow> pstate option" where
  "put_value v [] = Some (Done v)"
| "put_value v (ArrOpen # st) = Some (Running (ArrItem [v] # st))"
| "put_value v (ArrSep xs # st) = Some (Running (ArrItem (xs @ [v]) # st))"
| "put_value v (ObjColon ms k # st) = Some (Running (ObjItem (dict_set ms k v) # st))"
| "put_value v (_ # st) = None"

fun open_container :: "frame \<Rightarrow> frame list \<Rightarrow> pstate option" where
  "open_container f [] = Some (Running [f])"
| "open_container f (ArrOpen # st) = Some (Running (f # ArrOpen # st))"
| "open_container f (ArrSep xs # st) = Some (Running (f # ArrSep xs # st))"
| "open_container f (ObjColon ms k # st) = Some (Running (f # ObjColon ms k # st))"
| "open_container f (_ # st) = None"

fun feed :: "token \<Rightarrow> pstate \<Rightarrow> pstate option" where
  "feed t (Done v) = None"
| "feed LBracket (Running st) = open_container ArrOpen st"
| "feed LBrace (Running st) = open_container ObjOpen st"
| "feed RBracket (Running (ArrOpen # st)) = put_value (JArray []) st"
| "feed RBracket (Running (ArrItem xs # st)) = put_value (JArray xs) st"
| "feed RBracket (Running st) = None"
| "feed RBrace (Running (ObjOpen # st)) = put_value (JObject []) st"
| "feed RBrace (Running (ObjItem ms # st)) = put_value (JObject ms) st"
| "feed RBrace (Running st) = None"
| "feed Comma (Running (ArrItem xs # st)) = Some (Running (ArrSep xs # st))"
| "feed Comma (Running (ObjItem ms # st)) = Some (Running (ObjSep ms # st))"
| "feed Comma (Running st) = None"
| "feed Colon (Running (ObjKey ms k # st)) = Some (Running (ObjColon ms k # st))"
| "feed Colon (Running st) = None"
| "feed (Atom (JString k)) (Running (ObjOpen # st)) = Some (Running (ObjKey [] k # st))"
| "feed (Atom (JString k)) (Running (ObjSep ms # st)) = Some (Running (ObjKey ms k # st))"
| "feed (Atom v) (Running st) = put_value v st"

fun feed_all :: "token list \<Rightarrow> pstate \<Rightarrow> pstate option" where
  "feed_all [] p = Some p"
| "feed_all (t # ts) p = (case feed t p of None \<Rightarrow> None | Some p' \<Rightarrow> feed_all ts p')"

text \<open>One value, white space around it, nothing after it.\<close>

definition json_loads :: "string \<Rightarrow> py_error + json" where
  "json_loads s =
    (case tokenize s of
       None \<Rightarrow> Inl JSONDecodeError
     | Some ts \<Rightarrow>
         (case feed_all ts (Running []) of
            Some (Done v) \<Rightarrow> Inr v
          | _ \<Rightarrow> Inl JSONDecodeError))"

section \<open>MessageObject\<close>

text \<open>
  The three attributes hold whatever the caller or the decoded document supplies; the
  constructor checks nothing.
\<close>

record MessageObject =
  source :: json
  destination :: json
  content :: json

definition message_dict_of :: "MessageObject \<Rightarrow> json" where
  "message_dict_of m =
    JObject [(''source'', source m), (''destination'', destination m), (''content'', content m)]"

definition to_json :: "MessageObject \<Rightarrow> string" where
  "to_json m = json_dumps (message_dict_of m)"

definition as_dictionary :: "MessageObject \<Rightarrow> json" where
  "as_dictionary m = message_dict_of m"

text \<open>
  Python's \<^verbatim>\<open>item in x\<close> for a string \<open>item\<close>: key membership in a dict, element membership
  in a list, substring test in a string, \<open>TypeError\<close> on a number, a boolean or \<open>None\<close>.
\<close>

fun is_substring :: "string \<Rightarrow> string \<Rightarrow> bool" where
  "is_substring needle [] = (needle = [])"
| "is_substring needle (h # hs) = (starts_with needle (h # hs) \<or> is_substring needle hs)"

definition py_in :: "string \<Rightarrow> json \<Rightarrow> py_error + bool" where
  "py_in item x =
    (case x of
       JObject ms \<Rightarrow> Inr (item \<in> fst ` set ms)
     | JArray xs \<Rightarrow> Inr (JString item \<in> set xs)
     | JString s \<Rightarrow> Inr (is_substring item s)
     | _ \<Rightarrow> Inl TypeError)"

text \<open>\<^verbatim>\<open>x[key]\<close> for a string \<open>key\<close>: only a dict can be indexed by a string.\<close>

definition py_getitem :: "json \<Rightarrow> string \<Rightarrow> py_error + json" where
  "py_getitem x key =
    (case x of
       JObject ms \<Rightarrow> (case map_of ms key of None \<Rightarrow> Inl (KeyError key) | Some v \<Rightarrow> Inr v)
     | _ \<Rightarrow> Inl TypeError)"

definition missing_item :: "string \<Rightarrow> string" where
  "missing_item item = ''Required item '' @ item @ '' is not in provided message.''"

text \<open>The loop over \<^verbatim>\<open>validate_set\<close>: the first item that is not in the document raises.\<close>

fun validate :: "string list \<Rightarrow> json \<Rightarrow> py_error option" where
  "validate [] message_dict = None"
| "validate (item # items) message_dict =
    (case py_in item message_dict of
       Inl e \<Rightarrow> Some e
     | Inr False \<Rightarrow> Some (KeyError (missing_item item))
     | Inr True \<Rightarrow> validate items message_dict)"

definition from_json :: "string \<Rightarrow> py_error + MessageObject" where
  "from_json message_json =
    (case json_loads message_json of
       Inl e \<Rightarrow> Inl e
     | Inr message_dict \<Rightarrow>
         (case validate [''content'', ''source'', ''destination''] message_dict of
            Some e \<Rightarrow> Inl e
          | None \<Rightarrow>
              (case py_getitem message_dict ''source'' of
                 Inl e \<Rightarrow> Inl e
               | Inr s \<Rightarrow>
                   (case py_getitem message_dict ''destination'' of
                      Inl e \<Rightarrow> Inl e
                    | Inr d \<Rightarrow>
                        (case py_getitem message_dict ''content'' of
                           Inl e \<Rightarrow> Inl e
                         | Inr c \<Rightarrow> Inr \<lparr>source = s, destination = d, content = c\<rparr>)))))"

section \<open>The pipe library and the trace of effects\<close>

text \<open>
  What the program does to the outside, in the order it does it: a payload handed to the
  \<open>write\<close> of the peer with a given place in the enumeration, a line printed, the two
  reports that format a caught exception, and a call of \<^verbatim>\<open>time.sleep\<close> with its argument in
  seconds.
\<close>

datatype event =
    Write nat string
  | Stdout string
  | ReadFailure py_error
  | TransmitFailure py_error string
  | Sleep rat

text \<open>
  A peer of the \<^verbatim>\<open>wpipe\<close> library, as a scripted stub: \<open>canread\<close> raises
  \<open>canread_raises\<close> when set, answers \<open>False\<close> for the next \<open>delay\<close> polls, and then
  tells whether \<open>inbox\<close> holds something; \<open>read\<close> takes the head of \<open>inbox\<close>, a
  message or an exception; \<open>write\<close> raises \<open>write_raises\<close> when set and otherwise
  delivers the payload.
\<close>

record pipe_client =
  canread_raises :: "py_error option"
  delay :: nat
  inbox :: "(py_error + string) list"
  write_raises :: "py_error option"

definition canread :: "pipe_client \<Rightarrow> (py_error + bool) \<times> pipe_client" where
  "canread c =
    (case canread_raises c of
       Some e \<Rightarrow> (Inl e, c)
     | None \<Rightarrow>
         if 0 < delay c then (Inr False, c\<lparr>delay := delay c - 1\<rparr>)
         else (Inr (inbox c \<noteq> []), c))"

definition client_read :: "pipe_client \<Rightarrow> (py_error + string) \<times> pipe_client" where
  "client_read c =
    (case inbox c of
       [] \<Rightarrow> (Inl (PipeError ''nothing to read''), c)
     | r # rs \<Rightarrow> (r, c\<lparr>inbox := rs\<rparr>))"

definition client_write :: "pipe_client \<Rightarrow> nat \<Rightarrow> string \<Rightarrow> event list \<Rightarrow> (py_error + unit) \<times> event list" where
  "client_write c i payload tr =
    (case write_raises c of
       Some e \<Rightarrow> (Inl e, tr)
     | None \<Rightarrow> (Inr (), tr @ [Write i payload]))"

text \<open>
  \<^verbatim>\<open>wpipe.Server\<close> enumerates its clients; its \<open>waitfordata\<close> is taken to return or to
  raise. \<^verbatim>\<open>wpipe.Client\<close> holds the one peer.
\<close>

record wpipe_server =
  waitfordata_raises :: "py_error option"
  clients :: "pipe_client list"

datatype wpipe = Server wpipe_server | Client pipe_client

section \<open>NamedPipeInterface\<close>

record NamedPipeInterface =
  mode :: "string option"
  pipe_name :: string
  pipe_handle :: "wpipe option"



definition is_server :: "NamedPipeInterface \<Rightarrow> bool" where
  "is_server self = (mode self = Some ''SERVER'')"

text \<open>
  \<^verbatim>\<open>not self.pipe_handle or not self.mode\<close>: no handle, or a mode that is \<open>None\<close> or
  empty. A channel object of the library counts as true.
\<close>

definition not_ready :: "NamedPipeInterface \<Rightarrow> bool" where
  "not_ready self = (pipe_handle self = None \<or> mode self = None \<or> mode self = Some [])"

definition handle_name :: "string option \<Rightarrow> NamedPipeInterface \<Rightarrow> (py_error + string) \<times> NamedPipeInterface" where
  "handle_name name self =
    (if name = None \<or> name = Some [] then
       (if pipe_name self = [] then
          (Inl (UnboundLocalError ''Unable to create or bind pipe: No name provided.''), self)
        else (Inr (pipe_name self), self))
     else (Inr (the name), self\<lparr>pipe_name := the name\<rparr>))"

text \<open>
  \<open>bind\<close> and \<open>connect\<close>. The constructors \<^verbatim>\<open>wpipe.Server\<close> and \<^verbatim>\<open>wpipe.Client\<close> are
  parameters: given the name they return the channel or raise.
\<close>

definition bind :: "(string \<Rightarrow> py_error + wpipe_server) \<Rightarrow> string option \<Rightarrow> NamedPipeInterface \<Rightarrow>
    event list \<Rightarrow> (py_error + unit) \<times> NamedPipeInterface \<times> event list" where
  "bind wpipe_Server name self tr =
    (case handle_name name self of
       (Inl e, self1) \<Rightarrow> (Inl e, self1, tr)
     | (Inr nm, self1) \<Rightarrow>
         if pipe_handle self1 \<noteq> None then
           (Inl (OperationalError ''Pipe is already bound, refusing to bind twice!''), self1, tr)
         else
           (let tr1 = tr @ [Stdout (''[+] Binding wpipe server to name: '' @ nm)] in
            case wpipe_Server nm of
              Inl e \<Rightarrow> (Inl e, self1, tr1)
            | Inr h \<Rightarrow> (Inr (), self1\<lparr>pipe_handle := Some (Server h), mode := Some ''SERVER''\<rparr>, tr1)))"

definition connect :: "(string \<Rightarrow> py_error + pipe_client) \<Rightarrow> string option \<Rightarrow> NamedPipeInterface \<Rightarrow>
    event list \<Rightarrow> (py_error + unit) \<times> NamedPipeInterface \<times> event list" where
  "connect wpipe_Client name self tr =
    (case handle_name name self of
       (Inl e, self1) \<Rightarrow> (Inl e, self1, tr)
     | (Inr nm, self1) \<Rightarrow>
         if pipe_handle self1 \<noteq> None then
           (Inl (OperationalError ''Pipe already exists, refusing to create twice!''), self1, tr)
         else
           (case wpipe_Client nm of
              Inl e \<Rightarrow> (Inl e, self1, tr)
            | Inr h \<Rightarrow> (Inr (), self1\<lparr>pipe_handle := Some (Client h), mode := Some ''CLIENT''\<rparr>, tr)))"

subsection \<open>recv\<close>

definition cons_client :: "pipe_client \<Rightarrow> pipe_client list \<times> MessageObject list \<times> event list \<Rightarrow>
    pipe_client list \<times> MessageObject list \<times> event list" where
  "cons_client c r = (case r of (cs, rv, tr) \<Rightarrow> (c # cs, rv, tr))"

text \<open>
  The body of the loop over the clients of the server: the \<^verbatim>\<open>try\<close> statement. It gives
  the client after the calls, the messages appended to \<open>returnvalue\<close> (one or none) and
  what is printed. Whatever is raised inside is reported and the loop goes on.
\<close>

definition try_client :: "pipe_client \<Rightarrow> pipe_client \<times> MessageObject list \<times> event list" where
  "try_client client =
    (case canread client of
       (Inl e, c1) \<Rightarrow> (c1, [], [ReadFailure e])
     | (Inr False, c1) \<Rightarrow> (c1, [], [])
     | (Inr True, c1) \<Rightarrow>
         (case client_read c1 of
            (Inl e, c2) \<Rightarrow> (c2, [], [ReadFailure e])
          | (Inr client_message, c2) \<Rightarrow>
              (case from_json client_message of
                 Inl e \<Rightarrow> (c2, [], [ReadFailure e])
               | Inr message \<Rightarrow> (c2, [message], []))))"

fun recv_clients :: "pipe_client list \<Rightarrow> MessageObject list \<Rightarrow> event list \<Rightarrow>
    pipe_client list \<times> MessageObject list \<times> event list" where
  "recv_clients [] returnvalue tr = ([], returnvalue, tr)"
| "recv_clients (client # rest) returnvalue tr =
    (case try_client client of
       (c1, messages, printed) \<Rightarrow>
         cons_client c1 (recv_clients rest (returnvalue @ messages) (tr @ printed)))"

text \<open>
  \<^verbatim>\<open>while not self.pipe_handle.client.canread(): time.sleep(0.5)\<close>. The loop need not end:
  \<open>None\<close> is the run that polls for ever.
\<close>

partial_function (option) poll_until_readable :: "pipe_client \<Rightarrow> event list \<Rightarrow>
    ((py_error + unit) \<times> pipe_client \<times> event list) option" where
  "poll_until_readable c tr =
    (case canread c of
       (Inl e, c1) \<Rightarrow> Some (Inl e, c1, tr)
     | (Inr ready, c1) \<Rightarrow>
         if ready then Some (Inr (), c1, tr)
         else poll_until_readable c1 (tr @ [Sleep (1 / 2)]))"

definition recv_server :: "wpipe_server \<Rightarrow> event list \<Rightarrow>
    (py_error + MessageObject list) \<times> wpipe_server \<times> event list" where
  "recv_server srv tr =
    (case waitfordata_raises srv of
       Some e \<Rightarrow> (Inl e, srv, tr)
     | None \<Rightarrow>
         (case recv_clients (clients srv) [] tr of
            (cs, returnvalue, tr1) \<Rightarrow> (Inr returnvalue, srv\<lparr>clients := cs\<rparr>, tr1)))"

definition read_one :: "pipe_client \<Rightarrow> event list \<Rightarrow>
    (py_error + MessageObject list) \<times> pipe_client \<times> event list" where
  "read_one c tr =
    (case client_read c of
       (Inl e, c1) \<Rightarrow> (Inl e, c1, tr)
     | (Inr server_message, c1) \<Rightarrow>
         if server_message \<noteq> [] then
           (case from_json server_message of
              Inl e \<Rightarrow> (Inl e, c1, tr)
            | Inr message \<Rightarrow> (Inr [message], c1, tr))
         else (Inr [], c1, tr))"

definition recv_client :: "pipe_client \<Rightarrow> event list \<Rightarrow>
    ((py_error + MessageObject list) \<times> pipe_client \<times> event list) option" where
  "recv_client c tr =
    (case canread c of
       (Inl e, c1) \<Rightarrow> Some (Inl e, c1, tr)
     | (Inr ready, c1) \<Rightarrow>
         (case (if ready then Some (Inr (), c1, tr) else poll_until_readable c1 tr) of
            None \<Rightarrow> None
          | Some (Inl e, c2, tr2) \<Rightarrow> Some (Inl e, c2, tr2)
          | Some (Inr u, c2, tr2) \<Rightarrow> Some (read_one c2 tr2)))"

text \<open>
  A session whose mode and handle disagree cannot come out of \<open>bind\<close> or \<open>connect\<close>;
  there the handle lacks what the branch asks of it, which raises.
\<close>

definition recv :: "NamedPipeInterface \<Rightarrow> event list \<Rightarrow>
    ((py_error + MessageObject list) \<times> NamedPipeInterface \<times> event list) option" where
  "recv self tr =
    (if not_ready self then
       Some (Inl (OperationalError ''Must bind or conenct pipe before receiving data!''), self, tr)
     else if is_server self then
       (case pipe_handle self of
          Some (Server srv) \<Rightarrow>
            (case recv_server srv tr of
               (r, srv1, tr1) \<Rightarrow> Some (r, self\<lparr>pipe_handle := Some (Server srv1)\<rparr>, tr1))
        | _ \<Rightarrow> Some (Inl AttributeError, self, tr))
     else
       (case pipe_handle self of
          Some (Client c) \<Rightarrow>
            (case recv_client c tr of
               None \<Rightarrow> None
             | Some (r, c1, tr1) \<Rightarrow> Some (r, self\<lparr>pipe_handle := Some (Client c1)\<rparr>, tr1))
        | _ \<Rightarrow> Some (Inl AttributeError, self, tr)))"

subsection \<open>send\<close>

text \<open>
  \<^verbatim>\<open>for client in self.pipe_handle: client.write(...)\<close>, counting the clients from \<open>i\<close>. A
  write that raises ends the loop and the call.
\<close>

fun write_all :: "pipe_client list \<Rightarrow> nat \<Rightarrow> string \<Rightarrow> event list \<Rightarrow> (py_error + unit) \<times> event list" where
  "write_all [] i payload tr = (Inr (), tr)"
| "write_all (client # rest) i payload tr =
    (case client_write client i payload tr of
       (Inl e, tr1) \<Rightarrow> (Inl e, tr1)
     | (Inr u, tr1) \<Rightarrow> write_all rest (Suc i) payload tr1)"

definition send :: "MessageObject \<Rightarrow> NamedPipeInterface \<Rightarrow> event list \<Rightarrow>
    (py_error + unit) \<times> NamedPipeInterface \<times> event list" where
  "send message_object self tr =
    (if not_ready self then
       (Inl (OperationalError ''Must bind or connect pipe before sending data!''), self, tr)
     else if is_server self \<and> destination message_object \<noteq> JString ''NORELAY'' then
       (case pipe_handle self of
          Some (Server srv) \<Rightarrow>
            (case write_all (clients srv) 0 (to_json message_object) tr of
               (r, tr1) \<Rightarrow> (r, self, tr1))
        | _ \<Rightarrow> (Inl TypeError, self, tr))
     else if \<not> is_server self then
       (case pipe_handle self of
          Some (Client c) \<Rightarrow>
            (case client_write c 0 (to_json message_object) tr of
               (r, tr1) \<Rightarrow> (r, self, tr1))
        | _ \<Rightarrow> (Inl AttributeError, self, tr))
     else
       (Inr (), self,
        tr @ [Stdout (''[+] NORELAY flag set in message: '' @ to_json message_object)]))"

section \<open>Root: the queue, its worker and the POST handler\<close>

text \<open>
  \<open>server\<close> is whatever object the constructor was given; the worker only calls its
  \<open>send\<close>, which is therefore a parameter of the worker. The list of started threads
  plays no part in what follows and is left out.
\<close>

record 'srv Root =
  alive :: bool
  message_queue :: "string list"
  server :: 'srv

definition Root_init :: "'srv \<Rightarrow> 'srv Root" where
  "Root_init bound_server = \<lparr>alive = False, message_queue = [], server = bound_server\<rparr>"

definition start_message_thread :: "'srv Root \<Rightarrow> 'srv Root" where
  "start_message_thread self = self\<lparr>alive := True\<rparr>"

text \<open>
  One pass through the body of \<^verbatim>\<open>while self.alive\<close>. The \<^verbatim>\<open>try\<close> runs \<open>from_json\<close> and
  \<open>send\<close>; the handler reports what either raised; \<^verbatim>\<open>finally\<close> pops the head.
\<close>

definition message_thread_body ::
    "(MessageObject \<Rightarrow> 'srv \<Rightarrow> event list \<Rightarrow> (py_error + unit) \<times> 'srv \<times> event list) \<Rightarrow>
     'srv Root \<Rightarrow> event list \<Rightarrow> (py_error + unit) \<times> 'srv Root \<times> event list" where
  "message_thread_body server_send self tr =
    (case message_queue self of
       [] \<Rightarrow> (Inr (), self, tr @ [Sleep (1 / 2)])
     | head # rest \<Rightarrow>
         (case (case from_json head of
                  Inl e \<Rightarrow> (Inl e, server self, tr)
                | Inr message \<Rightarrow> server_send message (server self) tr) of
            (Inl e, srv1, tr1) \<Rightarrow>
              (Inr (), self\<lparr>server := srv1, message_queue := rest\<rparr>,
               tr1 @ [TransmitFailure e head])
          | (Inr u, srv1, tr1) \<Rightarrow>
              (Inr (), self\<lparr>server := srv1, message_queue := rest\<rparr>, tr1)))"

text \<open>The loop, cut after \<open>n\<close> passes: it leaves only when \<open>alive\<close> is cleared.\<close>

fun message_thread ::
    "(MessageObject \<Rightarrow> 'srv \<Rightarrow> event list \<Rightarrow> (py_error + unit) \<times> 'srv \<times> event list) \<Rightarrow>
     nat \<Rightarrow> 'srv Root \<Rightarrow> event list \<Rightarrow> (py_error + unit) \<times> 'srv Root \<times> event list" where
  "message_thread server_send 0 self tr = (Inr (), self, tr)"
| "message_thread server_send (Suc n) self tr =
    (if alive self then
       (case message_thread_body server_send self tr of
          (Inl e, self1, tr1) \<Rightarrow> (Inl e, self1, tr1)
        | (Inr u, self1, tr1) \<Rightarrow> message_thread server_send n self1 tr1)
     else (Inr (), self, tr))"

text \<open>
  The handler between the decorators: \<open>received_message\<close> is \<^verbatim>\<open>cherrypy.request.json\<close>, the
  result is the dict that \<^verbatim>\<open>json_out\<close> serialises.
\<close>

fun check_keys :: "string list \<Rightarrow> json \<Rightarrow> bool \<Rightarrow> py_error + bool" where
  "check_keys [] received_message successful = Inr successful"
| "check_keys (key # keys) received_message successful =
    (case py_in key received_message of
       Inl e \<Rightarrow> Inl e
     | Inr present \<Rightarrow> check_keys keys received_message (if present then successful else False))"

definition operation_result :: "bool \<Rightarrow> json" where
  "operation_result successful =
    JObject [(''operation'', JString ''POST''), (''successful'', JBool successful)]"

definition post_interface :: "json \<Rightarrow> 'srv Root \<Rightarrow> event list \<Rightarrow>
    (py_error + json) \<times> 'srv Root \<times> event list" where
  "post_interface received_message self tr =
    (case check_keys [''source'', ''destination'', ''content''] received_message True of
       Inl e \<Rightarrow> (Inl e, self, tr)
     | Inr successful \<Rightarrow>
         if successful then
           (Inr (operation_result True),
            self\<lparr>message_queue := message_queue self @ [json_dumps received_message]\<rparr>,
            tr @ [Stdout (''[+] Broadcasting message: '' @ json_dumps received_message)])
         else (Inr (operation_result False), self, tr))"

text \<open>
  The exposed endpoint: \<^verbatim>\<open>json_in\<close> decodes the request body and answers 400 when it is not
  JSON, \<^verbatim>\<open>json_out\<close> serialises the result.
\<close>

definition post_endpoint :: "string \<Rightarrow> 'srv Root \<Rightarrow> event list \<Rightarrow>
    (py_error + string) \<times> 'srv Root \<times> event list" where
  "post_endpoint body self tr =
    (case json_loads body of
       Inl e \<Rightarrow> (Inl (HTTPError 400), self, tr)
     | Inr received_message \<Rightarrow>
         (case post_interface received_message self tr of
            (Inl e, self1, tr1) \<Rightarrow> (Inl e, self1, tr1)
          | (Inr result, self1, tr1) \<Rightarrow> (Inr (json_dumps result), self1, tr1)))"

text \<open>
  The server process seen from the queue: requests that append a payload and passes of
  the worker, in any interleaving. A request appends at the tail and a pass reads and pops
  the head, so a pass is taken as one step.
\<close>

datatype action = Push string | Tick

fun run ::
    "(MessageObject \<Rightarrow> 'srv \<Rightarrow> event list \<Rightarrow> (py_error + unit) \<times> 'srv \<times> event list) \<Rightarrow>
     action list \<Rightarrow> 'srv Root \<Rightarrow> event list \<Rightarrow> 'srv Root \<times> event list" where
  "run server_send [] self tr = (self, tr)"
| "run server_send (Push v # acts) self tr =
    run server_send acts (self\<lparr>message_queue := message_queue self @ [v]\<rparr>) tr"
| "run server_send (Tick # acts) self tr =
    (case message_thread server_send 1 self tr of
       (r, self1, tr1) \<Rightarrow> run server_send acts self1 tr1)"

text \<open>A server that keeps the list of the messages it was asked to send, on top of any \<open>send\<close>.\<close>

definition recording ::
    "(MessageObject \<Rightarrow> 'srv \<Rightarrow> event list \<Rightarrow> (py_error + unit) \<times> 'srv \<times> event list) \<Rightarrow>
     MessageObject \<Rightarrow> 'srv \<times> MessageObject list \<Rightarrow> event list \<Rightarrow>
     (py_error + unit) \<times> ('srv \<times> MessageObject list) \<times> event list" where
  "recording server_send message_object srv tr =
    (case server_send message_object (fst srv) tr of
       (r, srv1, tr1) \<Rightarrow> (r, (srv1, snd srv @ [message_object]), tr1))"

section \<open>Main: the client loop\<close>

definition acknowledgement_message :: MessageObject where
  "acknowledgement_message =
    \<lparr>source = JString ''PIPECLIENT'', destination = JString ''NORELAY'',
     content = JString ''Acknowledged''\<rparr>"

text \<open>One pass through the body of \<^verbatim>\<open>while self.client_active\<close>; nothing here is caught.\<close>

definition client_thread_body :: "NamedPipeInterface \<Rightarrow> event list \<Rightarrow>
    ((py_error + unit) \<times> NamedPipeInterface \<times> event list) option" where
  "client_thread_body pipe_object tr =
    (case recv pipe_object tr of
       None \<Rightarrow> None
     | Some (Inl e, p1, tr1) \<Rightarrow> Some (Inl e, p1, tr1)
     | Some (Inr messages, p1, tr1) \<Rightarrow>
         if messages \<noteq> [] then
           (case send acknowledgement_message p1 tr1 of
              (Inl e, p2, tr2) \<Rightarrow> Some (Inl e, p2, tr2)
            | (Inr u, p2, tr2) \<Rightarrow>
                Some (Inr (), p2, tr2 @ map (\<lambda>message. Stdout (to_json message)) messages))
         else Some (Inr (), p1, tr1))"

section \<open>Observations and sample inputs\<close>


text \<open>Documents and sessions on which the statements below are evaluated.\<close>

definition quoted :: "string \<Rightarrow> string" where
  "quoted s = CHR 0x22 # s @ [CHR 0x22]"

definition compact_body :: string where
  "compact_body =
    ''{'' @ quoted ''source'' @ '':'' @ quoted ''A'' @ '','' @ quoted ''destination'' @ '':'' @
    quoted ''B'' @ '','' @ quoted ''content'' @ '':'' @ quoted ''hi'' @ ''}''"

definition spaced_body :: string where
  "spaced_body =
    ''{'' @ quoted ''source'' @ '': '' @ quoted ''A'' @ '', '' @ quoted ''destination'' @ '': '' @
    quoted ''B'' @ '', '' @ quoted ''content'' @ '': '' @ quoted ''hi'' @ ''}''"

definition body_without_destination :: string where
  "body_without_destination =
    ''{'' @ quoted ''source'' @ '':'' @ quoted ''A'' @ '','' @ quoted ''content'' @ '':'' @
    quoted ''hi'' @ ''}''"

definition empty_array_text :: string where
  "empty_array_text = ''[]''"

definition document_with_extras :: string where
  "document_with_extras =
    json_dumps (JObject [(''id'', JInt 7), (''content'', JString ''hi''), (''source'', JString ''A''),
      (''tags'', JArray [JString ''x'']), (''destination'', JString ''B'')])"

definition two_peer_server :: NamedPipeInterface where
  "two_peer_server =
    \<lparr>mode = Some ''SERVER'', pipe_name = ''relay'',
     pipe_handle = Some (Server \<lparr>waitfordata_raises = None,
       clients = [\<lparr>canread_raises = None, delay = 0, inbox = [], write_raises = None\<rparr>,
                  \<lparr>canread_raises = None, delay = 0, inbox = [], write_raises = None\<rparr>]\<rparr>)\<rparr>"

definition broken_peer_server :: NamedPipeInterface where
  "broken_peer_server =
    \<lparr>mode = Some ''SERVER'', pipe_name = ''relay'',
     pipe_handle = Some (Server \<lparr>waitfordata_raises = None,
       clients = [\<lparr>canread_raises = None, delay = 0, inbox = [],
                   write_raises = Some (PipeError ''broken pipe'')\<rparr>]\<rparr>)\<rparr>"



definition idle_root :: "unit Root" where
  "idle_root = \<lparr>alive = True, message_queue = [], server = ()\<rparr>"

text \<open>
  What a run of the server process is judged by: the payloads pushed, in order, and the
  messages they parse to, in order.
\<close>

fun pushed :: "action list \<Rightarrow> string list" where
  "pushed [] = []"
| "pushed (Push v # acts) = v # pushed acts"
| "pushed (Tick # acts) = pushed acts"

fun parsed :: "string list \<Rightarrow> MessageObject list" where
  "parsed [] = []"
| "parsed (v # vs) = (case from_json v of Inl e \<Rightarrow> parsed vs | Inr m \<Rightarrow> m # parsed vs)"

text \<open>More sample data: a transport that does nothing, peers that deliver or fail, sessions.\<close>

definition silent_send :: "MessageObject \<Rightarrow> unit \<Rightarrow> event list \<Rightarrow> (py_error + unit) \<times> unit \<times> event list" where
  "silent_send m srv tr = (Inr (), srv, tr)"

definition recording_root :: "(unit \<times> MessageObject list) Root" where
  "recording_root = \<lparr>alive = True, message_queue = [], server = ((), [])\<rparr>"

definition sample_message :: MessageObject where
  "sample_message = \<lparr>source = JString ''A'', destination = JString ''B'', content = JString ''hi''\<rparr>"

definition good_peer :: pipe_client where
  "good_peer = \<lparr>canread_raises = None, delay = 0, inbox = [Inr spaced_body], write_raises = None\<rparr>"

definition bad_peer :: pipe_client where
  "bad_peer =
    \<lparr>canread_raises = None, delay = 0, inbox = [Inl (PipeError ''read failed'')],
     write_raises = Some (PipeError ''broken pipe'')\<rparr>"

definition mixed_server :: wpipe_server where
  "mixed_server = \<lparr>waitfordata_raises = None, clients = [good_peer, bad_peer, good_peer]\<rparr>"

definition mixed_session :: NamedPipeInterface where
  "mixed_session = \<lparr>mode = Some ''SERVER'', pipe_name = ''relay'', pipe_handle = Some (Server mixed_server)\<rparr>"

definition waiting_peer :: pipe_client where
  "waiting_peer = \<lparr>canread_raises = None, delay = 2, inbox = [Inr spaced_body], write_raises = None\<rparr>"

definition client_session :: NamedPipeInterface where
  "client_session = \<lparr>mode = Some ''CLIENT'', pipe_name = ''relay'', pipe_handle = Some (Client waiting_peer)\<rparr>"

definition silent_peer :: pipe_client where
  "silent_peer = \<lparr>canread_raises = None, delay = 0, inbox = [Inr []], write_raises = None\<rparr>"

definition acknowledgement_text :: string where
  "acknowledgement_text =
    ''{'' @ quoted ''source'' @ '': '' @ quoted ''PIPECLIENT'' @ '', '' @ quoted ''destination'' @
    '': '' @ quoted ''NORELAY'' @ '', '' @ quoted ''content'' @ '': '' @ quoted ''Acknowledged'' @ ''}''"

section \<open>The codec on strings\<close>








section \<open>Properties of the envelope\<close>


lemma json_loads_error: "json_loads s = Inl e \<Longrightarrow> e = JSONDecodeError"
  by (auto simp: json_loads_def split: option.splits pstate.splits)

lemma in_keys_map_of: "k \<in> fst ` set ms \<longleftrightarrow> map_of ms k \<noteq> None"
  by (simp add: map_of_eq_None_iff)

text \<open>
  C2, as the code has it. \<open>from_json\<close> passes on the \<open>JSONDecodeError\<close> of a text that is
  not JSON. On a decoded object it raises \<open>KeyError\<close> for the first of content, source,
  destination that is not a key, and succeeds when all three are keys. The membership test
  is Python's \<^verbatim>\<open>in\<close>, so a decoded array or string is tested for an element or a substring:
  it raises the same \<open>KeyError\<close> when a name is absent and \<open>TypeError\<close> (at the
  subscript) when all three are present. A number, a boolean or \<open>null\<close> raises
  \<open>TypeError\<close>.
\<close>

theorem C2_parse_outcomes:
  "(json_loads s = Inl e \<longrightarrow> e = JSONDecodeError \<and> from_json s = Inl JSONDecodeError) \<and>
   (json_loads s = Inr (JObject ms) \<longrightarrow>
      from_json s =
        (if ''content'' \<notin> fst ` set ms then Inl (KeyError (missing_item ''content''))
         else if ''source'' \<notin> fst ` set ms then Inl (KeyError (missing_item ''source''))
         else if ''destination'' \<notin> fst ` set ms then Inl (KeyError (missing_item ''destination''))
         else Inr \<lparr>source = the (map_of ms ''source''),
                   destination = the (map_of ms ''destination''),
                   content = the (map_of ms ''content'')\<rparr>)) \<and>
   (json_loads s = Inr (JArray xs) \<longrightarrow>
      from_json s =
        (if JString ''content'' \<notin> set xs then Inl (KeyError (missing_item ''content''))
         else if JString ''source'' \<notin> set xs then Inl (KeyError (missing_item ''source''))
         else if JString ''destination'' \<notin> set xs then Inl (KeyError (missing_item ''destination''))
         else Inl TypeError)) \<and>
   (json_loads s = Inr (JString t) \<longrightarrow>
      from_json s =
        (if \<not> is_substring ''content'' t then Inl (KeyError (missing_item ''content''))
         else if \<not> is_substring ''source'' t then Inl (KeyError (missing_item ''source''))
         else if \<not> is_substring ''destination'' t then Inl (KeyError (missing_item ''destination''))
         else Inl TypeError)) \<and>
   (json_loads s = Inr JNull \<or> json_loads s = Inr (JBool b) \<or> json_loads s = Inr (JInt i) \<or>
    json_loads s = Inr (JFloat f) \<longrightarrow> from_json s = Inl TypeError)"
  using json_loads_error [of s e]
  by (auto simp: from_json_def py_in_def py_getitem_def in_keys_map_of)

text \<open>
  The claim as stated fails on the text \<open>[]\<close>: it decodes, to a value that is not an
  object, and the failure is the \<open>KeyError\<close> of a missing field.
\<close>

theorem C2_counterexample:
  "json_loads empty_array_text = Inr (JArray []) \<and>
   from_json empty_array_text = Inl (KeyError (missing_item ''content''))"
  by (simp add: empty_array_text_def from_json_def json_loads_def is_ws_def cons_token_def py_in_def)

theorem C2_witness:
  "json_loads ''{}'' = Inr (JObject []) \<and>
   from_json ''{}'' = Inl (KeyError (missing_item ''content'')) \<and>
   json_loads ''7'' = Inr (JInt 7) \<and> from_json ''7'' = Inl TypeError \<and>
   json_loads ''{not json'' = Inl JSONDecodeError \<and> from_json ''{not json'' = Inl JSONDecodeError"
proof -
  have a: "json_loads ''{}'' = Inr (JObject [])"
    by code_simp
  have b: "json_loads ''7'' = Inr (JInt 7)"
    by code_simp
  have c: "json_loads ''{not json'' = Inl JSONDecodeError"
    by code_simp
  show ?thesis
    using a b c C2_parse_outcomes [of "''{}''" JSONDecodeError "[]" "[]" "[]" True 7 "[]"]
      C2_parse_outcomes [of "''7''" JSONDecodeError "[]" "[]" "[]" True 7 "[]"]
      C2_parse_outcomes [of "''{not json''" JSONDecodeError "[]" "[]" "[]" True 7 "[]"]
    by simp
qed

text \<open>
  C10. Extra keys: when the text decodes to an object that has the three required keys,
  whatever else it has, \<open>from_json\<close> succeeds with the values of those three keys, and
  the serialisation of the result is that of an object with exactly these three members.
  The result is a function of the three values alone.
\<close>

theorem C10_extra_keys:
  assumes "json_loads s = Inr (JObject ms)"
    and "map_of ms ''source'' = Some sv"
    and "map_of ms ''destination'' = Some dv"
    and "map_of ms ''content'' = Some cv"
  shows "from_json s = Inr \<lparr>source = sv, destination = dv, content = cv\<rparr> \<and>
         to_json \<lparr>source = sv, destination = dv, content = cv\<rparr> =
           json_dumps (JObject [(''source'', sv), (''destination'', dv), (''content'', cv)])"
  using assms
  by (simp add: from_json_def py_in_def py_getitem_def in_keys_map_of to_json_def
      message_dict_of_def del: json_dumps.simps)

theorem C10_witness:
  "json_loads document_with_extras =
     Inr (JObject [(''id'', JInt 7), (''content'', JString ''hi''), (''source'', JString ''A''),
       (''tags'', JArray [JString ''x'']), (''destination'', JString ''B'')]) \<and>
   from_json document_with_extras =
     Inr \<lparr>source = JString ''A'', destination = JString ''B'', content = JString ''hi''\<rparr> \<and>
   to_json \<lparr>source = JString ''A'', destination = JString ''B'', content = JString ''hi''\<rparr> =
     json_dumps (JObject [(''source'', JString ''A''), (''destination'', JString ''B''),
       (''content'', JString ''hi'')])"
proof -
  have l: "json_loads document_with_extras =
     Inr (JObject [(''id'', JInt 7), (''content'', JString ''hi''), (''source'', JString ''A''),
       (''tags'', JArray [JString ''x'']), (''destination'', JString ''B'')])"
    unfolding document_with_extras_def by code_simp
  show ?thesis
    using l C10_extra_keys [OF l, of "JString ''A''" "JString ''B''" "JString ''hi''"]
    by simp
qed

section \<open>Properties of the session\<close>

text \<open>
  C3. NORELAY: in SERVER mode with a channel, \<open>send\<close> of a message whose destination is
  \<open>NORELAY\<close> returns normally, leaves the session as it was and adds one printed line to
  the trace: no \<open>Write\<close>.
\<close>

theorem C3_norelay_no_write:
  assumes "mode self = Some ''SERVER''"
    and "pipe_handle self \<noteq> None"
    and "destination m = JString ''NORELAY''"
  shows "send m self tr =
    (Inr (), self, tr @ [Stdout (''[+] NORELAY flag set in message: '' @ to_json m)])"
  using assms by (simp add: send_def not_ready_def is_server_def)

theorem C3_witness:
  "send acknowledgement_message two_peer_server [] =
    (Inr (), two_peer_server,
     [Stdout (''[+] NORELAY flag set in message: '' @ to_json acknowledgement_message)])"
  using C3_norelay_no_write [of two_peer_server acknowledgement_message "[]"]
  by (simp add: two_peer_server_def acknowledgement_message_def)

lemma from_json_spaced_body: "from_json spaced_body = Inr sample_message"
  unfolding spaced_body_def quoted_def sample_message_def by code_simp

lemma to_json_sample_message: "to_json sample_message = spaced_body"
  unfolding spaced_body_def quoted_def sample_message_def by code_simp

lemma write_all_ok:
  "\<forall>c\<in>set cs. write_raises c = None \<Longrightarrow>
   write_all cs i p tr = (Inr (), tr @ map (\<lambda>j. Write j p) [i..<i + length cs])"
proof (induction cs arbitrary: i tr)
  case Nil
  show ?case by simp
next
  case (Cons c cs)
  have "[i..<i + length (c # cs)] = i # [Suc i..<Suc i + length cs]"
    by (simp add: upt_rec)
  with Cons show ?case
    by (simp add: client_write_def)
qed

lemma write_all_fail:
  assumes "\<forall>c\<in>set ok. write_raises c = None" and "write_raises bad = Some e"
  shows "write_all (ok @ bad # rest) i p tr = (Inl e, tr @ map (\<lambda>j. Write j p) [i..<i + length ok])"
  using assms(1)
proof (induction ok arbitrary: i tr)
  case Nil
  show ?case using assms(2) by (simp add: client_write_def)
next
  case (Cons c cs)
  have "[i..<i + length (c # cs)] = i # [Suc i..<Suc i + length cs]"
    by (simp add: upt_rec)
  with Cons show ?case
    by (simp add: client_write_def)
qed

lemma recv_clients_eq:
  "recv_clients cs rv tr =
    (map (\<lambda>c. fst (try_client c)) cs,
     rv @ concat (map (\<lambda>c. fst (snd (try_client c))) cs),
     tr @ concat (map (\<lambda>c. snd (snd (try_client c))) cs))"
  by (induction cs arbitrary: rv tr) (simp_all add: cons_client_def split: prod.splits)

text \<open>
  C4. In SERVER mode, \<open>send\<close> of a message that is not NORELAY writes the serialised
  message to the clients in the order of the enumeration: to all of them when no write
  raises; otherwise up to the first client whose write raises, whose exception leaves the
  call, the earlier writes being done and the later clients untouched. \<open>recv\<close> never
  raises once \<open>waitfordata\<close> has returned: its result is the concatenation, in the same
  order, of what each client yields by itself, and a client whose \<open>canread\<close> or
  \<open>read\<close> raises, or whose text does not parse, yields no message and one report.
\<close>

theorem C4_send_aborts_recv_isolates:
  assumes "mode self = Some ''SERVER''" and "pipe_handle self = Some (Server srv)"
  shows
    "(destination m \<noteq> JString ''NORELAY'' \<and> (\<forall>c\<in>set (clients srv). write_raises c = None) \<longrightarrow>
        send m self tr =
          (Inr (), self, tr @ map (\<lambda>i. Write i (to_json m)) [0..<length (clients srv)])) \<and>
     (destination m \<noteq> JString ''NORELAY'' \<and> clients srv = ok @ bad # rest \<and>
      (\<forall>c\<in>set ok. write_raises c = None) \<and> write_raises bad = Some e \<longrightarrow>
        send m self tr = (Inl e, self, tr @ map (\<lambda>i. Write i (to_json m)) [0..<length ok])) \<and>
     (waitfordata_raises srv = None \<longrightarrow>
        recv self tr =
          Some (Inr (concat (map (\<lambda>c. fst (snd (try_client c))) (clients srv))),
                self\<lparr>pipe_handle :=
                  Some (Server (srv\<lparr>clients := map (\<lambda>c. fst (try_client c)) (clients srv)\<rparr>))\<rparr>,
                tr @ concat (map (\<lambda>c. snd (snd (try_client c))) (clients srv)))) \<and>
     (fst (canread c) = Inl e' \<longrightarrow> snd (try_client c) = ([], [ReadFailure e'])) \<and>
     (fst (canread c) = Inr True \<and> fst (client_read (snd (canread c))) = Inl e' \<longrightarrow>
        snd (try_client c) = ([], [ReadFailure e'])) \<and>
     (fst (canread c) = Inr True \<and> fst (client_read (snd (canread c))) = Inr text \<and>
      from_json text = Inl e' \<longrightarrow>
        snd (try_client c) = ([], [ReadFailure e'])) \<and>
     (fst (canread c) = Inr True \<and> fst (client_read (snd (canread c))) = Inr text \<and>
      from_json text = Inr message \<longrightarrow>
        snd (try_client c) = ([message], []))"
proof -
  have r: "\<not> not_ready self" "is_server self"
    using assms by (simp_all add: not_ready_def is_server_def)
  have t: "(fst (canread c) = Inl e' \<longrightarrow> snd (try_client c) = ([], [ReadFailure e'])) \<and>
     (fst (canread c) = Inr True \<and> fst (client_read (snd (canread c))) = Inl e' \<longrightarrow>
        snd (try_client c) = ([], [ReadFailure e'])) \<and>
     (fst (canread c) = Inr True \<and> fst (client_read (snd (canread c))) = Inr text \<and>
      from_json text = Inl e' \<longrightarrow>
        snd (try_client c) = ([], [ReadFailure e'])) \<and>
     (fst (canread c) = Inr True \<and> fst (client_read (snd (canread c))) = Inr text \<and>
      from_json text = Inr message \<longrightarrow>
        snd (try_client c) = ([message], []))"
    by (cases "canread c"; cases "client_read (snd (canread c))") (auto simp: try_client_def)
  have s1: "destination m \<noteq> JString ''NORELAY'' \<and> (\<forall>c\<in>set (clients srv). write_raises c = None) \<longrightarrow>
        send m self tr =
          (Inr (), self, tr @ map (\<lambda>i. Write i (to_json m)) [0..<length (clients srv)])"
    using r assms(2) write_all_ok [of "clients srv" 0 "to_json m" tr]
    by (simp add: send_def)
  have s2: "destination m \<noteq> JString ''NORELAY'' \<and> clients srv = ok @ bad # rest \<and>
      (\<forall>c\<in>set ok. write_raises c = None) \<and> write_raises bad = Some e \<longrightarrow>
        send m self tr = (Inl e, self, tr @ map (\<lambda>i. Write i (to_json m)) [0..<length ok])"
    using r assms(2) write_all_fail [of ok bad e rest 0 "to_json m" tr]
    by (simp add: send_def)
  have s3: "waitfordata_raises srv = None \<longrightarrow>
        recv self tr =
          Some (Inr (concat (map (\<lambda>c. fst (snd (try_client c))) (clients srv))),
                self\<lparr>pipe_handle :=
                  Some (Server (srv\<lparr>clients := map (\<lambda>c. fst (try_client c)) (clients srv)\<rparr>))\<rparr>,
                tr @ concat (map (\<lambda>c. snd (snd (try_client c))) (clients srv)))"
    using r assms(2) by (simp add: recv_def recv_server_def recv_clients_eq)
  show ?thesis
    using s1 s2 s3 t by blast
qed

theorem C4_witness:
  "send sample_message mixed_session [] =
     (Inl (PipeError ''broken pipe''), mixed_session, [Write 0 spaced_body]) \<and>
   send sample_message two_peer_server [] =
     (Inr (), two_peer_server, [Write 0 spaced_body, Write 1 spaced_body]) \<and>
   recv mixed_session [] =
     Some (Inr [sample_message, sample_message],
           mixed_session\<lparr>pipe_handle := Some (Server (mixed_server\<lparr>clients :=
             [good_peer\<lparr>inbox := []\<rparr>, bad_peer\<lparr>inbox := []\<rparr>, good_peer\<lparr>inbox := []\<rparr>]\<rparr>))\<rparr>,
           [ReadFailure (PipeError ''read failed'')])"
proof -
  have g: "try_client good_peer = (good_peer\<lparr>inbox := []\<rparr>, [sample_message], [])"
    by (simp add: try_client_def canread_def client_read_def good_peer_def from_json_spaced_body)
  have b: "try_client bad_peer = (bad_peer\<lparr>inbox := []\<rparr>, [], [ReadFailure (PipeError ''read failed'')])"
    by (simp add: try_client_def canread_def client_read_def bad_peer_def)
  have d: "destination sample_message \<noteq> JString ''NORELAY''"
    by (simp add: sample_message_def)
  have m: "mode mixed_session = Some ''SERVER''" "pipe_handle mixed_session = Some (Server mixed_server)"
    by (simp_all add: mixed_session_def)
  have c: "clients mixed_server = [good_peer] @ bad_peer # [good_peer]"
    "\<forall>c\<in>set [good_peer]. write_raises c = None" "write_raises bad_peer = Some (PipeError ''broken pipe'')"
    "waitfordata_raises mixed_server = None"
    by (simp_all add: mixed_server_def good_peer_def bad_peer_def)
  have t: "mode two_peer_server = Some ''SERVER''"
    "pipe_handle two_peer_server = Some (Server \<lparr>waitfordata_raises = None,
       clients = [\<lparr>canread_raises = None, delay = 0, inbox = [], write_raises = None\<rparr>,
                  \<lparr>canread_raises = None, delay = 0, inbox = [], write_raises = None\<rparr>]\<rparr>)"
    by (simp_all add: two_peer_server_def)
  have u: "[0..<2] = [0, 1]" "[0..<Suc 0] = [0]"
    by (simp_all add: upt_rec)
  show ?thesis
    using C4_send_aborts_recv_isolates [OF m, where m = sample_message and ok = "[good_peer]"
        and bad = bad_peer and rest = "[good_peer]" and e = "PipeError ''broken pipe''" and tr = "[]"]
      C4_send_aborts_recv_isolates [OF t, where m = sample_message and tr = "[]"]
      d c g b
    by (simp add: to_json_sample_message mixed_server_def u)
qed




section \<open>Properties of the queue, the worker and the endpoint\<close>

lemma check_keys_object:
  "check_keys [''source'', ''destination'', ''content''] (JObject ms) True =
     Inr (''source'' \<in> fst ` set ms \<and> ''destination'' \<in> fst ` set ms \<and> ''content'' \<in> fst ` set ms)"
  by (simp add: py_in_def)

text \<open>
  C8, as the code has it. For a body that decodes to an object the response is
  \<open>operation_result b\<close>, where \<open>b\<close> holds exactly when source, destination and content
  are all keys. When \<open>b\<close> is false the queue and the trace are unchanged. When it is true
  the queue gains one element at the tail: the serialisation by \<open>json_dumps\<close> of the
  decoded body, all its keys included.
\<close>

theorem C8_post_object:
  assumes "json_loads body = Inr (JObject ms)"
  shows "post_endpoint body self tr =
    (if ''source'' \<in> fst ` set ms \<and> ''destination'' \<in> fst ` set ms \<and> ''content'' \<in> fst ` set ms
     then (Inr (json_dumps (operation_result True)),
           self\<lparr>message_queue := message_queue self @ [json_dumps (JObject ms)]\<rparr>,
           tr @ [Stdout (''[+] Broadcasting message: '' @ json_dumps (JObject ms))])
     else (Inr (json_dumps (operation_result False)), self, tr))"
  using assms
  by (simp add: post_endpoint_def post_interface_def check_keys_object
      del: json_dumps.simps check_keys.simps)

text \<open>
  The claim as stated fails on a body written without spaces after the separators: what is
  queued is its re-serialisation, a different text.
\<close>

theorem C8_counterexample:
  "post_endpoint compact_body idle_root [] =
     (Inr (json_dumps (operation_result True)),
      idle_root\<lparr>message_queue := [spaced_body]\<rparr>,
      [Stdout (''[+] Broadcasting message: '' @ spaced_body)]) \<and>
   spaced_body \<noteq> compact_body"
proof -
  have l: "json_loads compact_body =
      Inr (JObject [(''source'', JString ''A''), (''destination'', JString ''B''),
        (''content'', JString ''hi'')])"
    unfolding compact_body_def quoted_def by code_simp
  have d: "json_dumps (JObject [(''source'', JString ''A''), (''destination'', JString ''B''),
        (''content'', JString ''hi'')]) = spaced_body"
    unfolding spaced_body_def quoted_def by code_simp
  have n: "spaced_body \<noteq> compact_body"
    unfolding spaced_body_def compact_body_def quoted_def by simp
  show ?thesis
    using l d n
    by (simp add: post_endpoint_def post_interface_def check_keys_object idle_root_def
        del: json_dumps.simps check_keys.simps)
qed

theorem C8_witness:
  "json_loads body_without_destination =
     Inr (JObject [(''source'', JString ''A''), (''content'', JString ''hi'')]) \<and>
   post_endpoint body_without_destination idle_root [] =
     (Inr (json_dumps (operation_result False)), idle_root, []) \<and>
   json_loads spaced_body =
     Inr (JObject [(''source'', JString ''A''), (''destination'', JString ''B''),
        (''content'', JString ''hi'')]) \<and>
   post_endpoint spaced_body idle_root [] =
     (Inr (json_dumps (operation_result True)),
      idle_root\<lparr>message_queue := [spaced_body]\<rparr>,
      [Stdout (''[+] Broadcasting message: '' @ spaced_body)])"
proof -
  have a: "json_loads body_without_destination =
     Inr (JObject [(''source'', JString ''A''), (''content'', JString ''hi'')])"
    unfolding body_without_destination_def quoted_def by code_simp
  have b: "json_loads spaced_body =
     Inr (JObject [(''source'', JString ''A''), (''destination'', JString ''B''),
        (''content'', JString ''hi'')])"
    unfolding spaced_body_def quoted_def by code_simp
  have d: "json_dumps (JObject [(''source'', JString ''A''), (''destination'', JString ''B''),
        (''content'', JString ''hi'')]) = spaced_body"
    unfolding spaced_body_def quoted_def by code_simp
  show ?thesis
    using a b d C8_post_object [OF a, of idle_root "[]"] C8_post_object [OF b, of idle_root "[]"]
    by (simp add: idle_root_def del: json_dumps.simps)
qed

text \<open>
  C6. One pass of the worker: on an empty queue it sleeps for half a second and changes
  nothing; when the head does not parse, or parses and \<open>send\<close> raises, it reports the
  exception together with the head, removes the head and nothing else, and raises nothing.
  While \<open>alive\<close> holds every pass ends normally with \<open>alive\<close> still set and the queue
  shortened by at most its head, and the loop goes on with the next pass.
\<close>

theorem C6_worker_drops_and_continues:
  "(message_queue self = [] \<longrightarrow>
      message_thread_body server_send self tr = (Inr (), self, tr @ [Sleep (1 / 2)])) \<and>
   (message_queue self = head # rest \<and> from_json head = Inl e \<longrightarrow>
      message_thread_body server_send self tr =
        (Inr (), self\<lparr>message_queue := rest\<rparr>, tr @ [TransmitFailure e head])) \<and>
   (message_queue self = head # rest \<and> from_json head = Inr message \<and>
    server_send message (server self) tr = (Inl e, srv1, tr1) \<longrightarrow>
      message_thread_body server_send self tr =
        (Inr (), self\<lparr>server := srv1, message_queue := rest\<rparr>, tr1 @ [TransmitFailure e head])) \<and>
   (alive self \<longrightarrow>
      (\<exists>self1 tr1. message_thread_body server_send self tr = (Inr (), self1, tr1) \<and>
         alive self1 \<and> message_queue self1 = drop 1 (message_queue self) \<and>
         message_thread server_send (Suc n) self tr = message_thread server_send n self1 tr1))"
  by (cases "message_queue self"; cases "from_json (hd (message_queue self))";
      cases "server_send (projr (from_json (hd (message_queue self)))) (server self) tr";
      cases "fst (server_send (projr (from_json (hd (message_queue self)))) (server self) tr)")
    (auto simp: message_thread_body_def)

theorem C6_witness:
  "message_thread_body send \<lparr>alive = True, message_queue = [], server = two_peer_server\<rparr> [] =
     (Inr (), \<lparr>alive = True, message_queue = [], server = two_peer_server\<rparr>, [Sleep (1 / 2)]) \<and>
   message_thread_body send
       \<lparr>alive = True, message_queue = [''{not json'', spaced_body], server = two_peer_server\<rparr> [] =
     (Inr (), \<lparr>alive = True, message_queue = [spaced_body], server = two_peer_server\<rparr>,
      [TransmitFailure JSONDecodeError ''{not json'']) \<and>
   message_thread_body send
       \<lparr>alive = True, message_queue = [spaced_body], server = broken_peer_server\<rparr> [] =
     (Inr (), \<lparr>alive = True, message_queue = [], server = broken_peer_server\<rparr>,
      [TransmitFailure (PipeError ''broken pipe'') spaced_body])"
proof -
  let ?m = "\<lparr>source = JString ''A'', destination = JString ''B'', content = JString ''hi''\<rparr>"
  have a: "from_json ''{not json'' = Inl JSONDecodeError"
    by code_simp
  have b: "from_json spaced_body = Inr ?m"
    unfolding spaced_body_def quoted_def by code_simp
  have c: "send ?m broken_peer_server [] = (Inl (PipeError ''broken pipe''), broken_peer_server, [])"
    by (simp add: send_def broken_peer_server_def not_ready_def is_server_def client_write_def)
  show ?thesis
    using a b c
      C6_worker_drops_and_continues [of
        "\<lparr>alive = True, message_queue = [], server = two_peer_server\<rparr>" send "[]"]
      C6_worker_drops_and_continues [of
        "\<lparr>alive = True, message_queue = [''{not json'', spaced_body], server = two_peer_server\<rparr>"
        send "[]" "''{not json''" "[spaced_body]" JSONDecodeError]
      C6_worker_drops_and_continues [of
        "\<lparr>alive = True, message_queue = [spaced_body], server = broken_peer_server\<rparr>"
        send "[]" spaced_body "[]" "PipeError ''broken pipe''" ?m broken_peer_server "[]"]
    by simp
qed

lemma parsed_append: "parsed (xs @ ys) = parsed xs @ parsed ys"
  by (induction xs) (auto split: sum.splits)

lemma body_recording_empty:
  "message_queue self = [] \<Longrightarrow>
   message_thread_body (recording f) self tr = (Inr (), self, tr @ [Sleep (1 / 2)])"
  by (simp add: message_thread_body_def)

lemma body_recording_head:
  assumes "message_queue self = h # rest"
  shows "\<exists>self1 tr1. message_thread_body (recording f) self tr = (Inr (), self1, tr1) \<and>
     message_queue self1 = rest \<and> alive self1 = alive self \<and>
     snd (server self1) = snd (server self) @ parsed [h]"
proof (cases "from_json h")
  case (Inl e)
  with assms show ?thesis
    by (simp add: message_thread_body_def)
next
  case (Inr m)
  obtain r srv1 tr1 where f: "f m (fst (server self)) tr = (r, srv1, tr1)"
    by (cases "f m (fst (server self)) tr")
  with assms Inr show ?thesis
    by (cases r) (simp_all add: message_thread_body_def recording_def)
qed

lemma run_Push:
  "run f (Push v # acts) self tr = run f acts (self\<lparr>message_queue := message_queue self @ [v]\<rparr>) tr"
  by simp

lemma run_Tick:
  assumes "alive self" and "message_thread_body f self tr = (Inr (), self1, tr1)"
  shows "run f (Tick # acts) self tr = run f acts self1 tr1"
  using assms by simp

lemma run_recording:
  assumes "alive self"
  shows "\<exists>k\<le>length (message_queue self @ pushed acts).
     message_queue (fst (run (recording f) acts self tr)) =
       drop k (message_queue self @ pushed acts) \<and>
     snd (server (fst (run (recording f) acts self tr))) =
       snd (server self) @ parsed (take k (message_queue self @ pushed acts))"
  using assms
proof (induction acts arbitrary: self tr)
  case Nil
  show ?case
    by (rule exI [of _ 0]) simp
next
  case (Cons a acts)
  show ?case
  proof (cases a)
    case (Push v)
    let ?s = "self\<lparr>message_queue := message_queue self @ [v]\<rparr>"
    from Cons.prems have al: "alive ?s"
      by simp
    have q: "message_queue ?s @ pushed acts = message_queue self @ pushed (a # acts)"
      using Push by simp
    have sv: "server ?s = server self"
      by simp
    show ?thesis
      using Cons.IH [OF al, of tr]
      unfolding Push run_Push q [unfolded Push] sv .
  next
    case Tick
    show ?thesis
    proof (cases "message_queue self")
      case Nil
      have r: "run (recording f) (a # acts) self tr = run (recording f) acts self (tr @ [Sleep (1 / 2)])"
        unfolding Tick by (rule run_Tick [OF Cons.prems body_recording_empty [OF Nil]])
      have p: "pushed (a # acts) = pushed acts"
        using Tick by simp
      show ?thesis
        using Cons.IH [OF Cons.prems, of "tr @ [Sleep (1 / 2)]"]
        unfolding r p .
    next
      case (Cons h rest)
      from body_recording_head [OF Cons, of f tr] obtain self1 tr1 where
        b: "message_thread_body (recording f) self tr = (Inr (), self1, tr1)"
        and q: "message_queue self1 = rest" and al: "alive self1 = alive self"
        and c: "snd (server self1) = snd (server self) @ parsed [h]"
        by blast
      from al Cons.prems have al1: "alive self1"
        by simp
      from Cons.IH [OF al1, of tr1] obtain k where
        k: "k \<le> length (rest @ pushed acts)"
        and kq: "message_queue (fst (run (recording f) acts self1 tr1)) = drop k (rest @ pushed acts)"
        and kc: "snd (server (fst (run (recording f) acts self1 tr1))) =
           snd (server self1) @ parsed (take k (rest @ pushed acts))"
        unfolding q by blast
      have r: "run (recording f) (a # acts) self tr = run (recording f) acts self1 tr1"
        unfolding Tick by (rule run_Tick [OF Cons.prems b])
      have p: "pushed (a # acts) = pushed acts"
        using Tick by simp
      have t: "parsed (take (Suc k) (h # rest @ pushed acts)) =
          parsed [h] @ parsed (take k (rest @ pushed acts))"
        using parsed_append [of "[h]" "take k (rest @ pushed acts)"] by simp
      have "Suc k \<le> length (message_queue self @ pushed (a # acts)) \<and>
          message_queue (fst (run (recording f) (a # acts) self tr)) =
            drop (Suc k) (message_queue self @ pushed (a # acts)) \<and>
          snd (server (fst (run (recording f) (a # acts) self tr))) =
            snd (server self) @ parsed (take (Suc k) (message_queue self @ pushed (a # acts)))"
        unfolding r p Cons using k kq kc c t by simp
      then show ?thesis
        by blast
    qed
  qed
qed

lemma run_append:
  "run f (xs @ ys) self tr = (case run f xs self tr of (self1, tr1) \<Rightarrow> run f ys self1 tr1)"
proof (induction xs arbitrary: self tr)
  case Nil
  show ?case by simp
next
  case (Cons a xs)
  show ?case
  proof (cases a)
    case (Push v)
    then show ?thesis
      using Cons.IH by simp
  next
    case Tick
    obtain r self1 tr1 where m: "message_thread f 1 self tr = (r, self1, tr1)"
      by (cases "message_thread f 1 self tr")
    show ?thesis
      unfolding Tick append_Cons run.simps m prod.case by (rule Cons.IH)
  qed
qed

lemma run_pushes:
  "run f (map Push vs) self tr = (self\<lparr>message_queue := message_queue self @ vs\<rparr>, tr)"
  by (induction vs arbitrary: self) simp_all

lemma run_ticks_drain:
  assumes "alive self" and "length (message_queue self) \<le> n"
  shows "message_queue (fst (run (recording f) (replicate n Tick) self tr)) = [] \<and>
     snd (server (fst (run (recording f) (replicate n Tick) self tr))) =
       snd (server self) @ parsed (message_queue self)"
  using assms
proof (induction n arbitrary: self tr)
  case 0
  then show ?case by simp
next
  case (Suc n)
  show ?case
  proof (cases "message_queue self")
    case Nil
    have r: "run (recording f) (replicate (Suc n) Tick) self tr =
        run (recording f) (replicate n Tick) self (tr @ [Sleep (1 / 2)])"
      unfolding replicate_Suc by (rule run_Tick [OF Suc.prems(1) body_recording_empty [OF Nil]])
    have l: "length (message_queue self) \<le> n"
      using Nil by simp
    show ?thesis
      unfolding r by (rule Suc.IH [OF Suc.prems(1) l])
  next
    case (Cons h rest)
    from body_recording_head [OF Cons, of f tr] obtain self1 tr1 where
      b: "message_thread_body (recording f) self tr = (Inr (), self1, tr1)"
      and q: "message_queue self1 = rest" and al: "alive self1 = alive self"
      and c: "snd (server self1) = snd (server self) @ parsed [h]"
      by blast
    have al1: "alive self1"
      using al Suc.prems(1) by simp
    have l: "length (message_queue self1) \<le> n"
      using q Cons Suc.prems(2) by simp
    have r: "run (recording f) (replicate (Suc n) Tick) self tr =
        run (recording f) (replicate n Tick) self1 tr1"
      unfolding replicate_Suc by (rule run_Tick [OF Suc.prems(1) b])
    have p: "parsed (h # rest) = parsed [h] @ parsed rest"
      using parsed_append [of "[h]" rest] by simp
    show ?thesis
      unfolding r Cons p using Suc.IH [OF al1 l, of tr1] q c by simp
  qed
qed

text \<open>
  C5. FIFO: start with an empty queue and a live worker whose transport records the
  messages it is asked to send. After any interleaving of pushes and passes of the worker,
  some number \<open>k\<close> of the pushed payloads has left the queue: the queue holds the others
  in the order pushed, and the messages sent are those that the first \<open>k\<close> payloads
  parse to, in the order pushed, each once. After \<open>N\<close> pushes followed by at least
  \<open>N\<close> passes the queue is empty and the messages sent are those of all \<open>N\<close> payloads.
\<close>

theorem C5_fifo:
  assumes "alive self" and "message_queue self = []" and "snd (server self) = []"
  shows "(\<exists>k\<le>length (pushed acts).
            message_queue (fst (run (recording f) acts self tr)) = drop k (pushed acts) \<and>
            snd (server (fst (run (recording f) acts self tr))) = parsed (take k (pushed acts))) \<and>
         (length vs \<le> n \<longrightarrow>
            message_queue (fst (run (recording f) (map Push vs @ replicate n Tick) self tr)) = [] \<and>
            snd (server (fst (run (recording f) (map Push vs @ replicate n Tick) self tr))) =
              parsed vs)"
proof
  show "\<exists>k\<le>length (pushed acts).
            message_queue (fst (run (recording f) acts self tr)) = drop k (pushed acts) \<and>
            snd (server (fst (run (recording f) acts self tr))) = parsed (take k (pushed acts))"
    using run_recording [OF assms(1), of acts f tr] assms(2,3) by simp
next
  show "length vs \<le> n \<longrightarrow>
            message_queue (fst (run (recording f) (map Push vs @ replicate n Tick) self tr)) = [] \<and>
            snd (server (fst (run (recording f) (map Push vs @ replicate n Tick) self tr))) =
              parsed vs"
  proof
    assume n: "length vs \<le> n"
    let ?s = "self\<lparr>message_queue := message_queue self @ vs\<rparr>"
    have r: "run (recording f) (map Push vs @ replicate n Tick) self tr =
        run (recording f) (replicate n Tick) ?s tr"
      by (simp add: run_append run_pushes)
    have al: "alive ?s"
      using assms(1) by simp
    have l: "length (message_queue ?s) \<le> n"
      using n assms(2) by simp
    show "message_queue (fst (run (recording f) (map Push vs @ replicate n Tick) self tr)) = [] \<and>
            snd (server (fst (run (recording f) (map Push vs @ replicate n Tick) self tr))) =
              parsed vs"
      unfolding r using run_ticks_drain [OF al l, of f tr] assms(2,3) by simp
  qed
qed

theorem C5_witness:
  "message_queue (fst (run (recording silent_send)
      (map Push [spaced_body, ''{not json'', spaced_body] @ replicate 3 Tick) recording_root [])) = [] \<and>
   snd (server (fst (run (recording silent_send)
      (map Push [spaced_body, ''{not json'', spaced_body] @ replicate 3 Tick) recording_root []))) =
     [\<lparr>source = JString ''A'', destination = JString ''B'', content = JString ''hi''\<rparr>,
      \<lparr>source = JString ''A'', destination = JString ''B'', content = JString ''hi''\<rparr>]"
proof -
  have a: "from_json ''{not json'' = Inl JSONDecodeError"
    by code_simp
  have b: "from_json spaced_body =
      Inr \<lparr>source = JString ''A'', destination = JString ''B'', content = JString ''hi''\<rparr>"
    unfolding spaced_body_def quoted_def by code_simp
  have h: "alive recording_root" "message_queue recording_root = []"
    "snd (server recording_root) = []"
    by (simp_all add: recording_root_def)
  have p: "parsed [spaced_body, ''{not json'', spaced_body] =
      [\<lparr>source = JString ''A'', destination = JString ''B'', content = JString ''hi''\<rparr>,
       \<lparr>source = JString ''A'', destination = JString ''B'', content = JString ''hi''\<rparr>]"
    using a b by simp
  have l: "length [spaced_body, ''{not json'', spaced_body] \<le> 3"
    by simp
  have "length [spaced_body, ''{not json'', spaced_body] \<le> 3 \<longrightarrow>
      message_queue (fst (run (recording silent_send)
        (map Push [spaced_body, ''{not json'', spaced_body] @ replicate 3 Tick) recording_root [])) = [] \<and>
      snd (server (fst (run (recording silent_send)
        (map Push [spaced_body, ''{not json'', spaced_body] @ replicate 3 Tick) recording_root []))) =
        parsed [spaced_body, ''{not json'', spaced_body]"
    by (rule conjunct2 [OF C5_fifo [OF h, of "[]" silent_send "[]"
          "[spaced_body, ''{not json'', spaced_body]" 3]])
  from mp [OF this l] show ?thesis
    unfolding p .
qed

section \<open>Properties of the client loop\<close>

lemma canread_keeps: "write_raises (snd (canread c)) = write_raises c"
  by (simp add: canread_def split: option.splits)

lemma client_read_keeps: "write_raises (snd (client_read c)) = write_raises c"
  by (simp add: client_read_def split: list.splits)

lemma poll_until_readable_keeps:
  assumes "poll_until_readable c tr = Some y"
  shows "write_raises (fst (snd y)) = write_raises c \<and>
         (\<exists>n. snd (snd y) = tr @ replicate n (Sleep (1 / 2)))"
  using assms
proof (induction rule: poll_until_readable.raw_induct [rotated 1, consumes 1, case_names step])
  case (step poll c tr y)
  obtain r c1 where cr: "canread c = (r, c1)"
    by (cases "canread c")
  have k: "write_raises c1 = write_raises c"
    using canread_keeps [of c] cr by simp
  show ?case
  proof (cases r)
    case (Inl e)
    with step(2) cr k show ?thesis
      by auto
  next
    case (Inr ready)
    show ?thesis
    proof (cases ready)
      case True
      with step(2) cr k Inr show ?thesis
        by auto
    next
      case False
      with step(2) cr Inr have "poll c1 (tr @ [Sleep (1 / 2)]) = Some y"
        by simp
      from step(1) [OF this] obtain n where
        w: "write_raises (fst (snd y)) = write_raises c1"
        and n: "snd (snd y) = (tr @ [Sleep (1 / 2)]) @ replicate n (Sleep (1 / 2))"
        by blast
      have "snd (snd y) = tr @ replicate (Suc n) (Sleep (1 / 2))"
        using n by simp
      then have "\<exists>n. snd (snd y) = tr @ replicate n (Sleep (1 / 2))"
        by (rule exI)
      with w k show ?thesis
        by simp
    qed
  qed
qed

lemma read_one_keeps:
  "write_raises (fst (snd (read_one c tr))) = write_raises c \<and> snd (snd (read_one c tr)) = tr"
  using client_read_keeps [of c]
  by (cases "client_read c") (auto simp: read_one_def split: sum.splits)

lemma recv_client_keeps:
  assumes "recv_client c tr = Some (r, c1, tr1)"
  shows "write_raises c1 = write_raises c \<and> (\<exists>n. tr1 = tr @ replicate n (Sleep (1 / 2)))"
proof -
  obtain r0 c0 where cr: "canread c = (r0, c0)"
    by (cases "canread c")
  have k: "write_raises c0 = write_raises c"
    using canread_keeps [of c] cr by simp
  show ?thesis
  proof (cases r0)
    case (Inl e)
    with assms cr k show ?thesis
      by (auto simp: recv_client_def)
  next
    case (Inr ready)
    show ?thesis
    proof (cases ready)
      case True
      with assms cr Inr have "read_one c0 tr = (r, c1, tr1)"
        by (simp add: recv_client_def)
      with read_one_keeps [of c0 tr] k show ?thesis
        by auto
    next
      case False
      with assms cr Inr obtain y where p: "poll_until_readable c0 tr = Some y"
        by (auto simp: recv_client_def split: option.splits)
      from poll_until_readable_keeps [OF p] obtain n where
        w: "write_raises (fst (snd y)) = write_raises c0"
        and n: "snd (snd y) = tr @ replicate n (Sleep (1 / 2))"
        by blast
      obtain ry cy ty where y: "y = (ry, cy, ty)"
        by (cases y)
      show ?thesis
      proof (cases ry)
        case (Inl e)
        with assms cr Inr False p y w n k show ?thesis
          by (auto simp: recv_client_def)
      next
        case (Inr u)
        with assms cr \<open>r0 = Inr ready\<close> False p y have "read_one cy ty = (r, c1, tr1)"
          by (simp add: recv_client_def)
        with read_one_keeps [of cy ty] w n k y show ?thesis
          by auto
      qed
    qed
  qed
qed

text \<open>
  C7. One pass of the client loop in CLIENT mode, when \<open>recv\<close> returns: \<open>recv\<close> adds
  nothing but sleeps to the trace. On an empty result the pass ends there: no write, no
  line. On a non-empty result the trace continues with exactly one write, of the
  serialised acknowledgement, followed by one line per received message in order; when
  that write raises, the exception leaves the loop and no line is printed.
\<close>

theorem C7_client_ack_before_output:
  assumes "mode p = Some ''CLIENT''" and "pipe_handle p = Some (Client c)"
    and "recv p tr = Some (Inr messages, p1, tr1)"
  shows "(\<exists>n. tr1 = tr @ replicate n (Sleep (1 / 2))) \<and>
     (messages = [] \<longrightarrow> client_thread_body p tr = Some (Inr (), p1, tr1)) \<and>
     (messages \<noteq> [] \<and> write_raises c = None \<longrightarrow>
        client_thread_body p tr =
          Some (Inr (), p1,
                tr1 @ Write 0 (to_json acknowledgement_message) #
                  map (\<lambda>message. Stdout (to_json message)) messages)) \<and>
     (messages \<noteq> [] \<and> write_raises c = Some e \<longrightarrow>
        client_thread_body p tr = Some (Inl e, p1, tr1))"
proof -
  have nr: "\<not> not_ready p" "\<not> is_server p"
    using assms(1,2) by (simp_all add: not_ready_def is_server_def)
  from assms(3) nr assms(2) obtain c1 where
    rc: "recv_client c tr = Some (Inr messages, c1, tr1)"
    and p1: "p1 = p\<lparr>pipe_handle := Some (Client c1)\<rparr>"
    by (auto simp: recv_def split: option.splits)
  from recv_client_keeps [OF rc] obtain n where
    w: "write_raises c1 = write_raises c" and n: "tr1 = tr @ replicate n (Sleep (1 / 2))"
    by blast
  have nr1: "\<not> not_ready p1" "\<not> is_server p1" "pipe_handle p1 = Some (Client c1)"
    using assms(1,2) p1 by (simp_all add: not_ready_def is_server_def)
  have s: "send acknowledgement_message p1 tr1 =
      (case write_raises c of
         Some e \<Rightarrow> (Inl e, p1, tr1)
       | None \<Rightarrow> (Inr (), p1, tr1 @ [Write 0 (to_json acknowledgement_message)]))"
    using nr1 w by (simp add: send_def client_write_def split: option.splits)
  show ?thesis
    using n s assms(3) by (auto simp: client_thread_body_def)
qed

theorem C7_witness:
  "recv client_session [] =
     Some (Inr [sample_message],
           client_session\<lparr>pipe_handle := Some (Client (waiting_peer\<lparr>delay := 0, inbox := []\<rparr>))\<rparr>,
           [Sleep (1 / 2)]) \<and>
   client_thread_body client_session [] =
     Some (Inr (),
           client_session\<lparr>pipe_handle := Some (Client (waiting_peer\<lparr>delay := 0, inbox := []\<rparr>))\<rparr>,
           [Sleep (1 / 2), Write 0 acknowledgement_text, Stdout spaced_body]) \<and>
   client_thread_body (client_session\<lparr>pipe_handle := Some (Client silent_peer)\<rparr>) [] =
     Some (Inr (), client_session\<lparr>pipe_handle := Some (Client (silent_peer\<lparr>inbox := []\<rparr>))\<rparr>, [])"
proof -
  have a: "to_json acknowledgement_message = acknowledgement_text"
    unfolding acknowledgement_message_def acknowledgement_text_def quoted_def by code_simp
  have ne: "spaced_body \<noteq> []"
    by (simp add: spaced_body_def)
  have r: "recv client_session [] =
     Some (Inr [sample_message],
           client_session\<lparr>pipe_handle := Some (Client (waiting_peer\<lparr>delay := 0, inbox := []\<rparr>))\<rparr>,
           [Sleep (1 / 2)])"
    by (simp add: recv_def recv_client_def read_one_def poll_until_readable.simps canread_def
        client_read_def client_session_def waiting_peer_def not_ready_def is_server_def
        from_json_spaced_body ne)
  have q: "recv (client_session\<lparr>pipe_handle := Some (Client silent_peer)\<rparr>) [] =
     Some (Inr [], client_session\<lparr>pipe_handle := Some (Client (silent_peer\<lparr>inbox := []\<rparr>))\<rparr>, [])"
    by (simp add: recv_def recv_client_def read_one_def canread_def
        client_read_def client_session_def silent_peer_def not_ready_def is_server_def)
  have m: "mode client_session = Some ''CLIENT''" "pipe_handle client_session = Some (Client waiting_peer)"
    "mode (client_session\<lparr>pipe_handle := Some (Client silent_peer)\<rparr>) = Some ''CLIENT''"
    "pipe_handle (client_session\<lparr>pipe_handle := Some (Client silent_peer)\<rparr>) = Some (Client silent_peer)"
    by (simp_all add: client_session_def)
  have w: "write_raises waiting_peer = None"
    by (simp add: waiting_peer_def)
  show ?thesis
    using r C7_client_ack_before_output [OF m(1) m(2) r] C7_client_ack_before_output [OF m(3) m(4) q]
      a w to_json_sample_message
    by simp
qed

end
